theory Spec2Isabelle
  imports Main "HOL-Library.Sublist" "HOL-Library.AList" "HOL-Library.Multiset"
begin

section \<open>Text and cells\<close>

text \<open>
  A Python \<^verbatim>\<open>str\<close> is a sequence of Unicode code points. Braille cells live in the block
  U+2800..U+28FF, outside the range of \<^typ>\<open>char\<close>, so a character is modelled by its code
  point and a string by the list of its code points. \<open>U\<close> reads an ASCII literal.
\<close>

type_synonym uchar = nat
type_synonym ustr = "uchar list"

definition U :: "string \<Rightarrow> ustr" where
  "U s = map of_char s"

text \<open>A dict literal keeps its insertion order: an association list, read with \<open>map_of\<close>.\<close>

type_synonym dict = "(ustr \<times> ustr) list"

definition is_cell :: "uchar \<Rightarrow> bool" where
  "is_cell c = (0x2800 \<le> c \<and> c \<le> 0x28FF)"

text \<open>The blank cell U+2800: the fallback of the Grade-1 lookups and the word separator.\<close>

definition blank :: ustr where
  "blank = [0x2800]"

section \<open>Built-ins of the language\<close>

text \<open>
  \<^verbatim>\<open>str.lower\<close>, \<^verbatim>\<open>str.isalpha\<close> and the white space of \<^verbatim>\<open>str.split()\<close> are
  defined by the Unicode character database of the interpreter, which is no part of the
  repository. The functions below take them as the parameters \<open>lower\<close>, \<open>isalpha\<close> and
  \<open>isspace\<close>; the general theorems hold for any choice of them. Concrete runs use the
  ASCII instances that follow, which agree with the interpreter on every string made of
  ASCII characters and Braille cells.
\<close>

definition ascii_lower :: "ustr \<Rightarrow> ustr" where
  "ascii_lower s = map (\<lambda>c. if 0x41 \<le> c \<and> c \<le> 0x5A then c + 0x20 else c) s"

definition ascii_isalpha :: "uchar \<Rightarrow> bool" where
  "ascii_isalpha c = ((0x41 \<le> c \<and> c \<le> 0x5A) \<or> (0x61 \<le> c \<and> c \<le> 0x7A))"

definition ascii_isspace :: "uchar \<Rightarrow> bool" where
  "ascii_isspace c = ((0x09 \<le> c \<and> c \<le> 0x0D) \<or> (0x1C \<le> c \<and> c \<le> 0x20))"

text \<open>\<^verbatim>\<open>d.get(k, default)\<close>.\<close>

definition dict_get :: "dict \<Rightarrow> ustr \<Rightarrow> ustr \<Rightarrow> ustr" where
  "dict_get d k dflt = (case map_of d k of Some v \<Rightarrow> v | None \<Rightarrow> dflt)"

text \<open>\<^verbatim>\<open>s.split(' ')\<close>: cut at every single space, empty pieces kept.\<close>

fun split_space :: "ustr \<Rightarrow> ustr list" where
  "split_space [] = [[]]"
| "split_space (c # cs) =
     (if c = 0x20 then [] # split_space cs
      else (case split_space cs of [] \<Rightarrow> [[c]] | w # ws \<Rightarrow> (c # w) # ws))"

text \<open>\<^verbatim>\<open>sep.join(parts)\<close>.\<close>

fun join :: "ustr \<Rightarrow> ustr list \<Rightarrow> ustr" where
  "join sep [] = []"
| "join sep [w] = w"
| "join sep (w # v # ws) = w @ sep @ join sep (v # ws)"

text \<open>
  \<^verbatim>\<open>s.replace(old, new)\<close>: every occurrence of \<open>old\<close>, found from the left and not
  overlapping the previous one, becomes \<open>new\<close>. With an empty \<open>old\<close> Python puts \<open>new\<close>
  before every character and at the end.
\<close>

function replace_scan :: "ustr \<Rightarrow> ustr \<Rightarrow> ustr \<Rightarrow> ustr" where
  "replace_scan old new [] = []"
| "replace_scan old new (c # cs) =
     (if old \<noteq> [] \<and> prefix old (c # cs)
      then new @ replace_scan old new (drop (length old) (c # cs))
      else c # replace_scan old new cs)"
  by pat_completeness auto
termination
  by (relation "measure (\<lambda>(old, new, s). length s)") (auto simp: neq_Nil_conv)

definition replace :: "ustr \<Rightarrow> ustr \<Rightarrow> ustr \<Rightarrow> ustr" where
  "replace old new s =
     (if old = [] then new @ concat (map (\<lambda>c. c # new) s) else replace_scan old new s)"

section \<open>The mapping tables\<close>

subsection \<open>generate\_data.py\<close>

definition G1_MAP_data :: dict where
  "G1_MAP_data = [
   (U ''a'', [0x2801]), (U ''b'', [0x2803]), (U ''c'', [0x2809]), (U ''d'', [0x2819]),
   (U ''e'', [0x2811]), (U ''f'', [0x280B]), (U ''g'', [0x281B]), (U ''h'', [0x2813]),
   (U ''i'', [0x280A]), (U ''j'', [0x281A]), (U ''k'', [0x2805]), (U ''l'', [0x2807]),
   (U ''m'', [0x280D]), (U ''n'', [0x281D]), (U ''o'', [0x2815]), (U ''p'', [0x280F]),
   (U ''q'', [0x281F]), (U ''r'', [0x2817]), (U ''s'', [0x280E]), (U ''t'', [0x281E]),
   (U ''u'', [0x2825]), (U ''v'', [0x2827]), (U ''w'', [0x283A]), (U ''x'', [0x282D]),
   (U ''y'', [0x283D]), (U ''z'', [0x2835]), (U '' '', [0x2800]), (U ''.'', [0x2832]),
   (U '','', [0x2802]), (U ''!'', [0x2816]), (U ''?'', [0x2826]), (U ''-'', [0x2824])]"

definition G2_WORDSIGNS_data :: dict where
  "G2_WORDSIGNS_data = [
   (U ''but'', [0x2803]), (U ''can'', [0x2809]), (U ''do'', [0x2819]),
   (U ''every'', [0x2811]), (U ''from'', [0x280B]), (U ''go'', [0x281B]),
   (U ''have'', [0x2813]), (U ''just'', [0x281A]), (U ''knowledge'', [0x2805]),
   (U ''like'', [0x2807]), (U ''more'', [0x280D]), (U ''not'', [0x281D]),
   (U ''people'', [0x280F]), (U ''quite'', [0x281F]), (U ''rather'', [0x2817]),
   (U ''so'', [0x280E]), (U ''that'', [0x281E]), (U ''us'', [0x2825]),
   (U ''very'', [0x2827]), (U ''will'', [0x283A]), (U ''it'', [0x282D]),
   (U ''you'', [0x283D]), (U ''as'', [0x2835])]"

definition G2_STRONG_data :: dict where
  "G2_STRONG_data = [
   (U ''the'', [0x282E]), (U ''and'', [0x282F]), (U ''for'', [0x283F]),
   (U ''of'', [0x2837]), (U ''with'', [0x283E]), (U ''child'', [0x2821]),
   (U ''shall'', [0x2829]), (U ''this'', [0x2839]), (U ''which'', [0x2831]),
   (U ''out'', [0x2833]), (U ''still'', [0x280C])]"

definition G2_GROUPSIGNS_data :: dict where
  "G2_GROUPSIGNS_data = [
   (U ''ch'', [0x2821]), (U ''gh'', [0x2823]), (U ''sh'', [0x2829]), (U ''th'', [0x2839]),
   (U ''wh'', [0x2831]), (U ''ed'', [0x282B]), (U ''er'', [0x283B]), (U ''ou'', [0x2833]),
   (U ''ow'', [0x282A]), (U ''st'', [0x280C]), (U ''ar'', [0x281C]), (U ''ing'', [0x282C]),
   (U ''ble'', [0x283C])]"

definition G2_LOWER_data :: dict where
  "G2_LOWER_data = [
   (U ''be'', [0x2806]), (U ''enough'', [0x2822]), (U ''were'', [0x2836]),
   (U ''his'', [0x2826]), (U ''in'', [0x2814]), (U ''was'', [0x2834]),
   (U ''to'', [0x2816]), (U ''into'', [0x2814, 0x2816]), (U ''by'', [0x2803, 0x283D])]"

subsection \<open>generate\_hybrid.py\<close>

definition G1_MAP_hybrid :: dict where
  "G1_MAP_hybrid = [
   (U ''a'', [0x2801]), (U ''b'', [0x2803]), (U ''c'', [0x2809]), (U ''d'', [0x2819]),
   (U ''e'', [0x2811]), (U ''f'', [0x280B]), (U ''g'', [0x281B]), (U ''h'', [0x2813]),
   (U ''i'', [0x280A]), (U ''j'', [0x281A]), (U ''k'', [0x2805]), (U ''l'', [0x2807]),
   (U ''m'', [0x280D]), (U ''n'', [0x281D]), (U ''o'', [0x2815]), (U ''p'', [0x280F]),
   (U ''q'', [0x281F]), (U ''r'', [0x2817]), (U ''s'', [0x280E]), (U ''t'', [0x281E]),
   (U ''u'', [0x2825]), (U ''v'', [0x2827]), (U ''w'', [0x283A]), (U ''x'', [0x282D]),
   (U ''y'', [0x283D]), (U ''z'', [0x2835]), (U '' '', [0x2800]), (U ''.'', [0x2832]),
   (U '','', [0x2802]), (U ''!'', [0x2816]), (U ''?'', [0x2826]), (U ''-'', [0x2824]),
   ([0x27], [0x2804]), (U '':'', [0x2812]), (U '';'', [0x2806]), (U ''0'', [0x2834]),
   (U ''1'', [0x2802]), (U ''2'', [0x2806]), (U ''3'', [0x2812]), (U ''4'', [0x2832]),
   (U ''5'', [0x2822]), (U ''6'', [0x2816]), (U ''7'', [0x2836]), (U ''8'', [0x2826]),
   (U ''9'', [0x2814])]"

definition G2_STRONG_hybrid :: dict where
  "G2_STRONG_hybrid = [
   (U ''the'', [0x282E]), (U ''and'', [0x282F]), (U ''for'', [0x283F]),
   (U ''of'', [0x2837]), (U ''with'', [0x283E]), (U ''child'', [0x2821]),
   (U ''shall'', [0x2829]), (U ''this'', [0x2839]), (U ''which'', [0x2831]),
   (U ''out'', [0x2833]), (U ''still'', [0x280C])]"

definition G2_WORDSIGNS_hybrid :: dict where
  "G2_WORDSIGNS_hybrid = [
   (U ''but'', [0x2803]), (U ''can'', [0x2809]), (U ''do'', [0x2819]),
   (U ''every'', [0x2811]), (U ''from'', [0x280B]), (U ''go'', [0x281B]),
   (U ''have'', [0x2813]), (U ''just'', [0x281A]), (U ''knowledge'', [0x2805]),
   (U ''like'', [0x2807]), (U ''more'', [0x280D]), (U ''not'', [0x281D]),
   (U ''people'', [0x280F]), (U ''quite'', [0x281F]), (U ''rather'', [0x2817]),
   (U ''so'', [0x280E]), (U ''that'', [0x281E]), (U ''us'', [0x2825]),
   (U ''very'', [0x2827]), (U ''will'', [0x283A]), (U ''it'', [0x282D]),
   (U ''you'', [0x283D]), (U ''as'', [0x2835])]"

definition G2_GROUPSIGNS_hybrid :: dict where
  "G2_GROUPSIGNS_hybrid = [
   (U ''ing'', [0x282C]), (U ''ble'', [0x283C]), (U ''ch'', [0x2821]),
   (U ''gh'', [0x2823]), (U ''sh'', [0x2829]), (U ''th'', [0x2839]), (U ''wh'', [0x2831]),
   (U ''ed'', [0x282B]), (U ''er'', [0x283B]), (U ''ou'', [0x2833]), (U ''ow'', [0x282A]),
   (U ''st'', [0x280C]), (U ''ar'', [0x281C]), (U ''en'', [0x2822]), (U ''in'', [0x2814])]"

definition G2_LOWER_hybrid :: dict where
  "G2_LOWER_hybrid = [
   (U ''be'', [0x2806]), (U ''enough'', [0x2822]), (U ''were'', [0x2836]),
   (U ''his'', [0x2826]), (U ''was'', [0x2834]), (U ''to'', [0x2816]),
   (U ''into'', [0x2814, 0x2816]), (U ''by'', [0x2803, 0x283D])]"

subsection \<open>validate.py\<close>

definition G1_MAP_validate :: dict where
  "G1_MAP_validate = [
   (U ''a'', [0x2801]), (U ''b'', [0x2803]), (U ''c'', [0x2809]), (U ''d'', [0x2819]),
   (U ''e'', [0x2811]), (U ''f'', [0x280B]), (U ''g'', [0x281B]), (U ''h'', [0x2813]),
   (U ''i'', [0x280A]), (U ''j'', [0x281A]), (U ''k'', [0x2805]), (U ''l'', [0x2807]),
   (U ''m'', [0x280D]), (U ''n'', [0x281D]), (U ''o'', [0x2815]), (U ''p'', [0x280F]),
   (U ''q'', [0x281F]), (U ''r'', [0x2817]), (U ''s'', [0x280E]), (U ''t'', [0x281E]),
   (U ''u'', [0x2825]), (U ''v'', [0x2827]), (U ''w'', [0x283A]), (U ''x'', [0x282D]),
   (U ''y'', [0x283D]), (U ''z'', [0x2835]), (U '' '', [0x2800])]"

lemmas table_defs =
  G1_MAP_data_def G2_WORDSIGNS_data_def G2_STRONG_data_def G2_GROUPSIGNS_data_def
  G2_LOWER_data_def G1_MAP_hybrid_def G2_STRONG_hybrid_def G2_WORDSIGNS_hybrid_def
  G2_GROUPSIGNS_hybrid_def G2_LOWER_hybrid_def G1_MAP_validate_def

section \<open>Grade 1\<close>

text \<open>
  \<^verbatim>\<open>"".join(G1_MAP.get(c.lower(), blank) for c in text)\<close>: each character is lower-cased
  on its own, as a one-character string, and looked up.
\<close>

definition g1_encode :: "dict \<Rightarrow> (ustr \<Rightarrow> ustr) \<Rightarrow> ustr \<Rightarrow> ustr" where
  "g1_encode tbl lower text = concat (map (\<lambda>c. dict_get tbl (lower [c]) blank) text)"

definition to_braille_g1 :: "(ustr \<Rightarrow> ustr) \<Rightarrow> ustr \<Rightarrow> ustr" where
  "to_braille_g1 lower text = g1_encode G1_MAP_data lower text"

definition encode_g1 :: "(ustr \<Rightarrow> ustr) \<Rightarrow> ustr \<Rightarrow> ustr" where
  "encode_g1 lower text = g1_encode G1_MAP_hybrid lower text"

definition encode_g1_validate :: "(ustr \<Rightarrow> ustr) \<Rightarrow> ustr \<Rightarrow> ustr" where
  "encode_g1_validate lower text = g1_encode G1_MAP_validate lower text"

text \<open>
  \<^verbatim>\<open>G1_REVERSE = {v: k for k, v in G1_MAP.items()}\<close>: the items are inserted in
  order; a value met again overwrites the entry of the first one and keeps its place.
\<close>

definition dict_invert :: "dict \<Rightarrow> dict" where
  "dict_invert d = foldl (\<lambda>r (k, v). AList.update v k r) [] d"

definition G1_REVERSE_hybrid :: dict where
  "G1_REVERSE_hybrid = dict_invert G1_MAP_hybrid"

definition G1_REVERSE_validate :: dict where
  "G1_REVERSE_validate = dict_invert G1_MAP_validate"

text \<open>\<^verbatim>\<open>''.join(G1_REVERSE.get(c, ' ') for c in braille)\<close>.\<close>

definition g1_decode :: "dict \<Rightarrow> ustr \<Rightarrow> ustr" where
  "g1_decode rev_tbl braille = concat (map (\<lambda>c. dict_get rev_tbl [c] (U '' '')) braille)"

definition decode_g1 :: "ustr \<Rightarrow> ustr" where
  "decode_g1 braille = g1_decode G1_REVERSE_hybrid braille"

definition decode_g1_validate :: "ustr \<Rightarrow> ustr" where
  "decode_g1_validate braille = g1_decode G1_REVERSE_validate braille"

section \<open>Grade 2\<close>

text \<open>
  \<^verbatim>\<open>sorted(G2_GROUPSIGNS.items(), key=lambda x: -len(x[0]))\<close>: a stable sort, so patterns
  of one length stay in the order of the literal.
\<close>

definition groupsign_order :: "dict \<Rightarrow> dict" where
  "groupsign_order tbl = sort_key (\<lambda>(pattern, braille). - int (length pattern)) tbl"

text \<open>The loop \<^verbatim>\<open>contracted = contracted.replace(pattern, braille)\<close> over that order.\<close>

definition apply_groupsigns :: "dict \<Rightarrow> ustr \<Rightarrow> ustr" where
  "apply_groupsigns tbl word =
     foldl (\<lambda>contracted (pattern, braille). replace pattern braille contracted)
       word (groupsign_order tbl)"

text \<open>
  The loop over \<open>contracted\<close>: a character that is a key of the Grade-1 table gives its
  cell, any other character is appended as it is.
\<close>

definition convert_remaining :: "dict \<Rightarrow> ustr \<Rightarrow> ustr" where
  "convert_remaining g1 contracted =
     concat (map (\<lambda>c. case map_of g1 [c] of Some v \<Rightarrow> v | None \<Rightarrow> [c]) contracted)"

text \<open>The body of \<^verbatim>\<open>for word in words\<close>: the \<open>if\<close>/\<open>elif\<close> chain, in its order.\<close>

definition g2_word :: "dict \<Rightarrow> dict \<Rightarrow> dict \<Rightarrow> dict \<Rightarrow> dict \<Rightarrow> ustr \<Rightarrow> ustr" where
  "g2_word strong wordsigns lower_ws groupsigns g1 word =
     (case map_of strong word of Some v \<Rightarrow> v
      | None \<Rightarrow>
     (case map_of wordsigns word of Some v \<Rightarrow> v
      | None \<Rightarrow>
     (case map_of lower_ws word of Some v \<Rightarrow> v
      | None \<Rightarrow> convert_remaining g1 (apply_groupsigns groupsigns word))))"

definition to_braille_g2_word :: "ustr \<Rightarrow> ustr" where
  "to_braille_g2_word =
     g2_word G2_STRONG_data G2_WORDSIGNS_data G2_LOWER_data G2_GROUPSIGNS_data G1_MAP_data"

definition encode_g2_word :: "ustr \<Rightarrow> ustr" where
  "encode_g2_word =
     g2_word G2_STRONG_hybrid G2_WORDSIGNS_hybrid G2_LOWER_hybrid G2_GROUPSIGNS_hybrid
       G1_MAP_hybrid"

text \<open>generate\_data.py\<close>

definition to_braille_g2 :: "(ustr \<Rightarrow> ustr) \<Rightarrow> ustr \<Rightarrow> ustr" where
  "to_braille_g2 lower text = join blank (map to_braille_g2_word (split_space (lower text)))"

text \<open>generate\_hybrid.py\<close>

definition encode_g2 :: "(ustr \<Rightarrow> ustr) \<Rightarrow> ustr \<Rightarrow> ustr" where
  "encode_g2 lower text = join blank (map encode_g2_word (split_space (lower text)))"

section \<open>Bounded compression\<close>

text \<open>\<^verbatim>\<open>s.split()\<close>: the maximal runs of characters that are not white space.\<close>

fun split_ws_from :: "(uchar \<Rightarrow> bool) \<Rightarrow> ustr \<Rightarrow> ustr \<Rightarrow> ustr list" where
  "split_ws_from isspace cur [] = (if cur = [] then [] else [cur])"
| "split_ws_from isspace cur (c # cs) =
     (if isspace c
      then (if cur = [] then split_ws_from isspace [] cs
            else cur # split_ws_from isspace [] cs)
      else split_ws_from isspace (cur @ [c]) cs)"

definition split_ws :: "(uchar \<Rightarrow> bool) \<Rightarrow> ustr \<Rightarrow> ustr list" where
  "split_ws isspace s = split_ws_from isspace [] s"

text \<open>\<^verbatim>\<open>xs[:n]\<close>; a negative \<open>n\<close> counts from the end.\<close>

definition slice_to :: "int \<Rightarrow> 'a list \<Rightarrow> 'a list" where
  "slice_to n xs = (if 0 \<le> n then take (nat n) xs else take (length xs - nat (- n)) xs)"

text \<open>\<^verbatim>\<open>[w[0] for w in words if w and w[0].isalpha()]\<close>.\<close>

fun first_letters :: "(uchar \<Rightarrow> bool) \<Rightarrow> ustr list \<Rightarrow> ustr" where
  "first_letters isalpha [] = []"
| "first_letters isalpha ([] # ws) = first_letters isalpha ws"
| "first_letters isalpha ((c # cs) # ws) =
     (if isalpha c then c # first_letters isalpha ws else first_letters isalpha ws)"

text \<open>\<^verbatim>\<open>max(words, key=len)\<close>: the first word of the greatest length.\<close>

fun max_len :: "ustr \<Rightarrow> ustr list \<Rightarrow> ustr" where
  "max_len best [] = best"
| "max_len best (w # ws) = max_len (if length best < length w then w else best) ws"

text \<open>The \<open>for\<close> loop over \<^verbatim>\<open>longest[1:]\<close>.\<close>

definition pull_letters :: "(uchar \<Rightarrow> bool) \<Rightarrow> int \<Rightarrow> ustr \<Rightarrow> ustr \<Rightarrow> ustr" where
  "pull_letters isalpha n letters longest =
     foldl (\<lambda>ls c. if isalpha c \<and> int (length ls) < n then ls @ [c] else ls)
       letters (tl longest)"

text \<open>
  The \<open>while\<close> loop. Nothing in its body bounds the number of rounds, so it is a partial
  function: \<open>None\<close> stands for a loop that never ends.
\<close>

partial_function (option) pad_loop ::
  "(uchar \<Rightarrow> bool) \<Rightarrow> ustr list \<Rightarrow> int \<Rightarrow> ustr \<Rightarrow> ustr option" where
  "pad_loop isalpha words n letters =
     (if int (length letters) < n \<and> words \<noteq> []
      then pad_loop isalpha words n
             (pull_letters isalpha n letters (max_len (hd words) (tl words)))
      else Some letters)"

definition g1_letters :: "ustr \<Rightarrow> ustr" where
  "g1_letters letters = concat (map (\<lambda>l. dict_get G1_MAP_hybrid [l] blank) letters)"

definition reasoning_text :: "ustr \<Rightarrow> ustr" where
  "reasoning_text letters =
     U ''Uses letters: '' @ join (U '', '') (map (\<lambda>l. [l]) letters) @ U '' from key words''"

definition compress_to_n_cells ::
  "(ustr \<Rightarrow> ustr) \<Rightarrow> (uchar \<Rightarrow> bool) \<Rightarrow> (uchar \<Rightarrow> bool) \<Rightarrow> ustr \<Rightarrow> int \<Rightarrow> (ustr \<times> ustr) option"
where
  "compress_to_n_cells lower isspace isalpha text n =
     (let words = split_ws isspace (lower text);
          letters = slice_to n (first_letters isalpha words)
      in map_option
           (\<lambda>letters. let letters = slice_to n letters
                      in (g1_letters letters, reasoning_text letters))
           (pad_loop isalpha words n letters))"

section \<open>Sets of inputs named in the theorems\<close>

text \<open>
  The Grade-1 keys of generate\_hybrid.py whose cell no later key of the literal has too:
  the letters, the space, the hyphen, the digits and the apostrophe.
\<close>

definition hybrid_round_trip_keys :: "ustr list" where
  "hybrid_round_trip_keys =
     map (\<lambda>c. [c]) (U ''abcdefghijklmnopqrstuvwxyz -0123456789'' @ [0x27])"

text \<open>
  Step 1 of the compression routine in the spec's words, kept apart from the code: the
  first alphabetic character of each word, in word order, up to \<open>n\<close> letters.
\<close>

definition spec_initial_letters :: "(uchar \<Rightarrow> bool) \<Rightarrow> ustr list \<Rightarrow> nat \<Rightarrow> ustr" where
  "spec_initial_letters isalpha words n = take n (List.map_filter (find isalpha) words)"

text \<open>The Grade-1 keys that only the table of generate\_hybrid.py has.\<close>

definition hybrid_only_keys :: "ustr list" where
  "hybrid_only_keys = map (\<lambda>c. [c]) (0x27 # U '':;0123456789'')"

text \<open>
  A word on which the tables of the two modules cannot tell the encoders apart: it is a
  key of a whole-word table of generate\_data.py, or what the groupsigns of
  generate\_data.py leave of it holds neither "en" nor "in", the two groupsigns only
  generate\_hybrid.py has, nor a character that only the Grade-1 table of
  generate\_hybrid.py maps.
\<close>

definition tables_agree_on :: "ustr \<Rightarrow> bool" where
  "tables_agree_on w =
     (map_of G2_STRONG_data w \<noteq> None \<or> map_of G2_WORDSIGNS_data w \<noteq> None
      \<or> map_of G2_LOWER_data w \<noteq> None
      \<or> (\<not> sublist (U ''en'') (apply_groupsigns G2_GROUPSIGNS_data w)
          \<and> \<not> sublist (U ''in'') (apply_groupsigns G2_GROUPSIGNS_data w)
          \<and> list_all (\<lambda>c. [c] \<notin> set hybrid_only_keys)
                (apply_groupsigns G2_GROUPSIGNS_data w)))"

section \<open>Grade 1: one cell per character\<close>

lemma length_concat_singletons:
  "list_all (\<lambda>x. length (f x) = 1) xs \<Longrightarrow> length (concat (map f xs)) = length xs"
  by (induction xs) auto

lemma dict_get_single:
  assumes "list_all (\<lambda>(k, v). length v = 1) d" and "length dflt = 1"
  shows "length (dict_get d k dflt) = 1"
proof (cases "map_of d k")
  case None
  with assms(2) show ?thesis by (simp add: dict_get_def)
next
  case (Some v)
  then have "(k, v) \<in> set d" by (rule map_of_SomeD)
  with assms(1) have "length v = 1" by (auto simp: list_all_iff)
  with Some show ?thesis by (simp add: dict_get_def)
qed

lemma g1_encode_length:
  assumes "list_all (\<lambda>(k, v). length v = 1) tbl"
  shows "length (g1_encode tbl lower s) = length s"
  unfolding g1_encode_def
  by (rule length_concat_singletons)
     (simp add: list_all_iff dict_get_single [OF assms] blank_def)

lemma G1_MAP_data_single: "list_all (\<lambda>(k, v). length v = 1) G1_MAP_data"
  by (simp add: G1_MAP_data_def)

lemma G1_MAP_hybrid_single: "list_all (\<lambda>(k, v). length v = 1) G1_MAP_hybrid"
  by (simp add: G1_MAP_hybrid_def)

lemma G1_MAP_validate_single: "list_all (\<lambda>(k, v). length v = 1) G1_MAP_validate"
  by (simp add: G1_MAP_validate_def)

text \<open>
  C4. For every input string, mapped characters or not and whatever \<open>lower\<close> does to a
  character, the Grade-1 encoder returns exactly one cell per input character:
  \<open>len(encode_g1(s)) == len(s)\<close>. This holds for \<open>to_braille_g1\<close> of generate\_data.py
  and for the \<open>encode_g1\<close> of generate\_hybrid.py and of validate.py.
\<close>

theorem g1_one_cell_per_character:
  "length (to_braille_g1 lower s) = length s
   \<and> length (encode_g1 lower s) = length s
   \<and> length (encode_g1_validate lower s) = length s"
  by (simp add: to_braille_g1_def encode_g1_def encode_g1_validate_def
      g1_encode_length [OF G1_MAP_data_single] g1_encode_length [OF G1_MAP_hybrid_single]
      g1_encode_length [OF G1_MAP_validate_single])

section \<open>Grade 2: splitting, joining and single words\<close>

lemmas g2_eval =
  to_braille_g2_word_def encode_g2_word_def g2_word_def convert_remaining_def
  apply_groupsigns_def groupsign_order_def replace_def

lemma U_space: "U '' '' = [0x20]"
  by (simp add: U_def)

lemma split_space_no_space: "0x20 \<notin> set w \<Longrightarrow> split_space w = [w]"
  by (induction w) auto

lemma split_space_append:
  "0x20 \<notin> set w \<Longrightarrow> split_space (w @ 0x20 # r) = w # split_space r"
  by (induction w) auto

lemma split_space_join:
  "ws \<noteq> [] \<Longrightarrow> list_all (\<lambda>w. 0x20 \<notin> set w) ws \<Longrightarrow> split_space (join [0x20] ws) = ws"
proof (induction "[0x20 :: nat]" ws rule: join.induct)
  case 1
  then show ?case by simp
next
  case (2 w)
  then show ?case by (simp add: split_space_no_space)
next
  case (3 w v ws)
  then show ?case by (simp add: split_space_append)
qed

lemma g2_of_words:
  assumes "ws \<noteq> []" and "list_all (\<lambda>w. 0x20 \<notin> set w) ws"
    and "lower text = join (U '' '') ws"
  shows "to_braille_g2 lower text = join blank (map to_braille_g2_word ws)"
    and "encode_g2 lower text = join blank (map encode_g2_word ws)"
  using assms by (simp_all add: to_braille_g2_def encode_g2_def U_space split_space_join)

lemma word_empty: "to_braille_g2_word [] = []" "encode_g2_word [] = []"
  by (simp_all add: g2_eval table_defs U_def)

lemma word_the: "to_braille_g2_word (U ''the'') = [0x282E]" "encode_g2_word (U ''the'') = [0x282E]"
  by (simp_all add: g2_eval table_defs U_def)

lemma word_this:
  "to_braille_g2_word (U ''this'') = [0x2839]" "encode_g2_word (U ''this'') = [0x2839]"
  by (simp_all add: g2_eval table_defs U_def)

lemma word_cat:
  "to_braille_g2_word (U ''cat'') = [0x2809, 0x2801, 0x281E]"
  "encode_g2_word (U ''cat'') = [0x2809, 0x2801, 0x281E]"
  by (simp_all add: g2_eval table_defs U_def)

lemma word_thing:
  "to_braille_g2_word (U ''thing'') = [0x2839, 0x282C]"
  "encode_g2_word (U ''thing'') = [0x2839, 0x282C]"
  by (simp_all add: g2_eval table_defs U_def)

lemma single_word:
  assumes "lower text = w" and "0x20 \<notin> set w"
  shows "to_braille_g2 lower text = to_braille_g2_word w"
    and "encode_g2 lower text = encode_g2_word w"
  using assms by (simp_all add: to_braille_g2_def encode_g2_def split_space_no_space)

lemma no_space_U [simp]:
  "0x20 \<notin> set (U ''the'')" "0x20 \<notin> set (U ''this'')" "0x20 \<notin> set (U ''cat'')" "0x20 \<notin> set (U ''thing'')"
  by (simp_all add: U_def)

text \<open>
  C1. Grade-2 encoding resolves every word of the text split at single spaces in strict
  precedence order and stops at the first match: the Strong Contraction table, then the
  Wordsign table, then the Lower Wordsign table, and only otherwise groupsign substitution
  followed by the Grade-1 pass. In particular \<open>encode_g2("the")\<close> is the single cell
  U+282E and \<open>encode_g2("this")\<close> the single cell U+2839, not a decomposition into
  letters or groupsigns.
\<close>

theorem g2_whole_word_precedence:
  "(map_of G2_STRONG_data w = Some v \<longrightarrow> to_braille_g2_word w = v)
   \<and> (map_of G2_STRONG_data w = None \<and> map_of G2_WORDSIGNS_data w = Some v
        \<longrightarrow> to_braille_g2_word w = v)
   \<and> (map_of G2_STRONG_data w = None \<and> map_of G2_WORDSIGNS_data w = None
        \<and> map_of G2_LOWER_data w = Some v \<longrightarrow> to_braille_g2_word w = v)
   \<and> (map_of G2_STRONG_data w = None \<and> map_of G2_WORDSIGNS_data w = None
        \<and> map_of G2_LOWER_data w = None
        \<longrightarrow> to_braille_g2_word w
              = convert_remaining G1_MAP_data (apply_groupsigns G2_GROUPSIGNS_data w))
   \<and> (ws \<noteq> [] \<and> list_all (\<lambda>w. 0x20 \<notin> set w) ws \<and> lower text = join (U '' '') ws
        \<longrightarrow> to_braille_g2 lower text = join blank (map to_braille_g2_word ws))
   \<and> (lower (U ''the'') = U ''the''
        \<longrightarrow> to_braille_g2 lower (U ''the'') = [0x282E] \<and> encode_g2 lower (U ''the'') = [0x282E])
   \<and> (lower (U ''this'') = U ''this''
        \<longrightarrow> to_braille_g2 lower (U ''this'') = [0x2839]
            \<and> encode_g2 lower (U ''this'') = [0x2839])"
proof -
  have words: "to_braille_g2_word w
      = (case map_of G2_STRONG_data w of Some v \<Rightarrow> v
         | None \<Rightarrow> (case map_of G2_WORDSIGNS_data w of Some v \<Rightarrow> v
         | None \<Rightarrow> (case map_of G2_LOWER_data w of Some v \<Rightarrow> v
         | None \<Rightarrow> convert_remaining G1_MAP_data (apply_groupsigns G2_GROUPSIGNS_data w))))"
    by (simp add: to_braille_g2_word_def g2_word_def)
  show ?thesis
    by (simp add: words g2_of_words single_word word_the word_this)
qed

theorem g2_whole_word_precedence_witness:
  "to_braille_g2_word (U ''the'') = [0x282E]
   \<and> to_braille_g2_word (U ''but'') = [0x2803]
   \<and> to_braille_g2_word (U ''be'') = [0x2806]
   \<and> to_braille_g2_word (U ''cat'') = [0x2809, 0x2801, 0x281E]
   \<and> to_braille_g2 ascii_lower (U ''The Cat'') = [0x282E, 0x2800, 0x2809, 0x2801, 0x281E]
   \<and> to_braille_g2 ascii_lower (U ''the'') = [0x282E]
   \<and> to_braille_g2 ascii_lower (U ''this'') = [0x2839]"
  using g2_whole_word_precedence [of "U ''the''" "[0x282E]" "[U ''the'', U ''cat'']" ascii_lower "U ''The Cat''"]
    g2_whole_word_precedence [of "U ''but''" "[0x2803]" "[U ''the'', U ''cat'']" ascii_lower "U ''The Cat''"]
    g2_whole_word_precedence [of "U ''be''" "[0x2806]" "[U ''the'', U ''cat'']" ascii_lower "U ''The Cat''"]
    g2_whole_word_precedence [of "U ''cat''" "[]" "[U ''the'', U ''cat'']" ascii_lower "U ''The Cat''"]
  by (simp add: table_defs U_def ascii_lower_def blank_def convert_remaining_def apply_groupsigns_def groupsign_order_def replace_def)

section \<open>Grade 2: the separator and empty words\<close>

lemma split_space_spaces: "split_space (replicate k 0x20) = replicate (Suc k) []"
  by (induction k) auto

lemma join_empties: "join [c] (replicate (Suc k) []) = replicate k c"
  by (induction k) auto

lemma split_space_two_spaces:
  "0x20 \<notin> set a \<Longrightarrow> 0x20 \<notin> set b \<Longrightarrow> split_space (a @ 0x20 # 0x20 # b) = [a, [], b]"
  by (simp add: split_space_append split_space_no_space)

lemma word_a_b:
  "to_braille_g2_word (U ''a'') = [0x2801]" "to_braille_g2_word (U ''b'') = [0x2803]"
  "encode_g2_word (U ''a'') = [0x2801]" "encode_g2_word (U ''b'') = [0x2803]"
  by (simp_all add: g2_eval table_defs U_def)

text \<open>
  C8. Grade-2 encoding joins the cell sequences of the words with the Word-Separator
  cell U+2800: for a text whose lower-cased form is the words \<open>ws\<close> put together with
  single spaces, the output is the encodings of the words put together with that cell. In
  particular \<open>encode_g2("the cat")\<close> is the Strong Contraction cell of "the", the separator,
  and the three Grade-1 cells of c, a, t: U+282E U+2800 U+2809 U+2801 U+281E.
\<close>

theorem g2_words_joined_by_separator:
  "(ws \<noteq> [] \<and> list_all (\<lambda>w. 0x20 \<notin> set w) ws \<and> lower text = join (U '' '') ws
      \<longrightarrow> to_braille_g2 lower text = join [0x2800] (map to_braille_g2_word ws)
          \<and> encode_g2 lower text = join [0x2800] (map encode_g2_word ws))
   \<and> (lower (U ''the cat'') = U ''the cat''
      \<longrightarrow> to_braille_g2 lower (U ''the cat'') = [0x282E, 0x2800, 0x2809, 0x2801, 0x281E]
          \<and> encode_g2 lower (U ''the cat'') = [0x282E, 0x2800, 0x2809, 0x2801, 0x281E])"
proof -
  have the_cat: "U ''the cat'' = join (U '' '') [U ''the'', U ''cat'']"
    by (simp add: U_def)
  have "lower (U ''the cat'') = U ''the cat''
      \<Longrightarrow> to_braille_g2 lower (U ''the cat'') = [0x282E, 0x2800, 0x2809, 0x2801, 0x281E]
          \<and> encode_g2 lower (U ''the cat'') = [0x282E, 0x2800, 0x2809, 0x2801, 0x281E]"
    using g2_of_words [of "[U ''the'', U ''cat'']" lower "U ''the cat''"] the_cat
    by (simp add: word_the word_cat blank_def)
  then show ?thesis
    using g2_of_words [of ws lower "text"] by (auto simp: blank_def)
qed

theorem g2_words_joined_by_separator_witness:
  "ascii_lower (U ''The Cat'') = join (U '' '') [U ''the'', U ''cat'']
   \<and> to_braille_g2 ascii_lower (U ''The Cat'')
       = join [0x2800] (map to_braille_g2_word [U ''the'', U ''cat''])
   \<and> ascii_lower (U ''the cat'') = U ''the cat''
   \<and> to_braille_g2 ascii_lower (U ''the cat'') = [0x282E, 0x2800, 0x2809, 0x2801, 0x281E]"
  using g2_words_joined_by_separator [of "[U ''the'', U ''cat'']" ascii_lower "U ''The Cat''"]
  by (simp add: ascii_lower_def U_def)

text \<open>
  C9. Grade-2 encoding of an empty word or an empty phrase gives the empty cell sequence
  and raises nothing: the empty word resolves to no cell, \<open>encode_g2("")\<close> is the empty
  string, a text of \<open>k\<close> spaces gives \<open>k\<close> separator cells, and the empty token between two
  consecutive spaces is kept as an empty segment between two adjacent separator cells.
\<close>

theorem g2_empty_words:
  "to_braille_g2_word [] = [] \<and> encode_g2_word [] = []
   \<and> (lower [] = [] \<longrightarrow> to_braille_g2 lower [] = [] \<and> encode_g2 lower [] = [])
   \<and> (lower text = replicate k 0x20
        \<longrightarrow> to_braille_g2 lower text = replicate k 0x2800
            \<and> encode_g2 lower text = replicate k 0x2800)
   \<and> (0x20 \<notin> set a \<and> 0x20 \<notin> set b \<and> lower text = a @ [0x20, 0x20] @ b
        \<longrightarrow> to_braille_g2 lower text
              = to_braille_g2_word a @ [0x2800, 0x2800] @ to_braille_g2_word b
            \<and> encode_g2 lower text = encode_g2_word a @ [0x2800, 0x2800] @ encode_g2_word b)"
  by (simp add: word_empty to_braille_g2_def encode_g2_def split_space_spaces
      split_space_two_spaces join_empties blank_def del: replicate_Suc)

theorem g2_empty_words_witness:
  "ascii_lower [] = [] \<and> to_braille_g2 ascii_lower [] = []
   \<and> ascii_lower (U ''  '') = replicate 2 0x20
   \<and> to_braille_g2 ascii_lower (U ''  '') = [0x2800, 0x2800]
   \<and> 0x20 \<notin> set (U ''a'') \<and> 0x20 \<notin> set (U ''b'')
   \<and> ascii_lower (U ''a  b'') = U ''a'' @ [0x20, 0x20] @ U ''b''
   \<and> to_braille_g2 ascii_lower (U ''a  b'') = [0x2801, 0x2800, 0x2800, 0x2803]
   \<and> encode_g2 ascii_lower (U ''a  b'') = [0x2801, 0x2800, 0x2800, 0x2803]"
proof -
  have e: "ascii_lower [] = []"
    by (simp add: ascii_lower_def)
  have s: "ascii_lower (U ''  '') = replicate 2 0x20"
    by (simp add: ascii_lower_def U_def numeral_2_eq_2)
  have ab: "0x20 \<notin> set (U ''a'')" "0x20 \<notin> set (U ''b'')"
    "ascii_lower (U ''a  b'') = U ''a'' @ [0x20, 0x20] @ U ''b''"
    by (simp_all add: ascii_lower_def U_def)
  have r: "replicate 2 (0x2800 :: nat) = [0x2800, 0x2800]"
    by (simp add: numeral_2_eq_2)
  from g2_empty_words [of ascii_lower "U ''  ''" 2 "U ''a''" "U ''b''"] e s
  have 1: "to_braille_g2 ascii_lower [] = []"
    and 2: "to_braille_g2 ascii_lower (U ''  '') = replicate 2 0x2800"
    by blast+
  from g2_empty_words [of ascii_lower "U ''a  b''" 0 "U ''a''" "U ''b''"] ab
  have 3: "to_braille_g2 ascii_lower (U ''a  b'')
        = to_braille_g2_word (U ''a'') @ [0x2800, 0x2800] @ to_braille_g2_word (U ''b'')"
    and 4: "encode_g2 ascii_lower (U ''a  b'')
        = encode_g2_word (U ''a'') @ [0x2800, 0x2800] @ encode_g2_word (U ''b'')"
    by blast+
  show ?thesis
    using e s ab 1 2 3 4 by (simp only: r word_a_b append.simps simp_thms)
qed

section \<open>Grade 2: the order of the groupsigns\<close>

lemma groupsign_order_sorted:
  "sorted_wrt (\<lambda>p q. length (fst q) \<le> length (fst p)) (groupsign_order tbl)"
proof -
  let ?f = "\<lambda>(pattern :: ustr, braille :: ustr). - int (length pattern)"
  have "sorted (map ?f (sort_key ?f tbl))" by (rule sorted_sort_key)
  then have "sorted_wrt (\<lambda>x y. ?f x \<le> ?f y) (sort_key ?f tbl)" by (simp add: sorted_map)
  then show ?thesis
    unfolding groupsign_order_def
    by (rule sorted_wrt_mono_rel [rotated]) (auto simp: case_prod_beta)
qed

lemma order_data:
  "map fst (groupsign_order G2_GROUPSIGNS_data)
   = map U [''ing'', ''ble'', ''ch'', ''gh'', ''sh'', ''th'', ''wh'', ''ed'', ''er'', ''ou'',
       ''ow'', ''st'', ''ar'']"
  by (simp add: groupsign_order_def G2_GROUPSIGNS_data_def U_def)

lemma order_hybrid:
  "map fst (groupsign_order G2_GROUPSIGNS_hybrid)
   = map U [''ing'', ''ble'', ''ch'', ''gh'', ''sh'', ''th'', ''wh'', ''ed'', ''er'', ''ou'',
       ''ow'', ''st'', ''ar'', ''en'', ''in'']"
  by (simp add: groupsign_order_def G2_GROUPSIGNS_hybrid_def U_def)

lemma word_bled:
  "to_braille_g2_word (U ''bled'') = [0x283C, 0x2819]"
  "encode_g2_word (U ''bled'') = [0x283C, 0x2819]"
  by (simp_all add: g2_eval table_defs U_def)

lemma three_letter_first:
  "groupsign_order G2_GROUPSIGNS_data
   = (U ''ing'', [0x282C]) # (U ''ble'', [0x283C]) # drop 2 (groupsign_order G2_GROUPSIGNS_data)"
  "groupsign_order G2_GROUPSIGNS_hybrid
   = (U ''ing'', [0x282C]) # (U ''ble'', [0x283C]) # drop 2 (groupsign_order G2_GROUPSIGNS_hybrid)"
  "list_all (\<lambda>(p, b). length p = 2) (drop 2 (groupsign_order G2_GROUPSIGNS_data))"
  "list_all (\<lambda>(p, b). length p = 2) (drop 2 (groupsign_order G2_GROUPSIGNS_hybrid))"
  by (simp_all add: groupsign_order_def G2_GROUPSIGNS_data_def G2_GROUPSIGNS_hybrid_def U_def)

lemma three_letter_on_raw_word:
  "apply_groupsigns G2_GROUPSIGNS_data w
   = foldl (\<lambda>s (p, b). replace p b s)
       (replace (U ''ble'') [0x283C] (replace (U ''ing'') [0x282C] w))
       (drop 2 (groupsign_order G2_GROUPSIGNS_data))"
  "apply_groupsigns G2_GROUPSIGNS_hybrid w
   = foldl (\<lambda>s (p, b). replace p b s)
       (replace (U ''ble'') [0x283C] (replace (U ''ing'') [0x282C] w))
       (drop 2 (groupsign_order G2_GROUPSIGNS_hybrid))"
  unfolding apply_groupsigns_def
  by (subst three_letter_first(1), simp) (subst three_letter_first(2), simp)

text \<open>
  C5. Groupsign substitution tries the patterns by descending key length, each as a global
  substring replacement: for any table the order is sorted by descending length and a
  permutation of the table, and the substitution is the fold of \<open>replace\<close> over it. Both
  tables put "ing" and "ble" before every two-letter pattern, so the three-letter
  clusters are replaced in the raw word before any two-letter pattern is tried, and where
  a three-letter cluster overlaps a two-letter one the longer wins ("bled" uses "ble",
  not "ed"). In particular \<open>encode_g2("thing")\<close> is U+2839 U+282C: "ing" for the suffix, then "th".
\<close>

theorem groupsigns_longest_first:
  "sorted_wrt (\<lambda>p q. length (fst q) \<le> length (fst p)) (groupsign_order tbl)
   \<and> mset (groupsign_order tbl) = mset tbl
   \<and> apply_groupsigns tbl w
       = foldl (\<lambda>s (p, b). replace p b s) w (groupsign_order tbl)
   \<and> map fst (groupsign_order G2_GROUPSIGNS_data)
       = map U [''ing'', ''ble'', ''ch'', ''gh'', ''sh'', ''th'', ''wh'', ''ed'', ''er'',
           ''ou'', ''ow'', ''st'', ''ar'']
   \<and> map fst (groupsign_order G2_GROUPSIGNS_hybrid)
       = map U [''ing'', ''ble'', ''ch'', ''gh'', ''sh'', ''th'', ''wh'', ''ed'', ''er'',
           ''ou'', ''ow'', ''st'', ''ar'', ''en'', ''in'']
   \<and> apply_groupsigns G2_GROUPSIGNS_data w
       = foldl (\<lambda>s (p, b). replace p b s)
           (replace (U ''ble'') [0x283C] (replace (U ''ing'') [0x282C] w))
           (drop 2 (groupsign_order G2_GROUPSIGNS_data))
   \<and> apply_groupsigns G2_GROUPSIGNS_hybrid w
       = foldl (\<lambda>s (p, b). replace p b s)
           (replace (U ''ble'') [0x283C] (replace (U ''ing'') [0x282C] w))
           (drop 2 (groupsign_order G2_GROUPSIGNS_hybrid))
   \<and> list_all (\<lambda>(p, b). length p = 2) (drop 2 (groupsign_order G2_GROUPSIGNS_data))
   \<and> list_all (\<lambda>(p, b). length p = 2) (drop 2 (groupsign_order G2_GROUPSIGNS_hybrid))
   \<and> to_braille_g2_word (U ''bled'') = [0x283C, 0x2819]
   \<and> (lower (U ''thing'') = U ''thing''
        \<longrightarrow> to_braille_g2 lower (U ''thing'') = [0x2839, 0x282C]
            \<and> encode_g2 lower (U ''thing'') = [0x2839, 0x282C])"
proof -
  have perm: "mset (groupsign_order tbl) = mset tbl"
    by (simp add: groupsign_order_def)
  have fold: "apply_groupsigns tbl w = foldl (\<lambda>s (p, b). replace p b s) w (groupsign_order tbl)"
    by (simp add: apply_groupsigns_def)
  have thing: "to_braille_g2 lower (U ''thing'') = [0x2839, 0x282C]
      \<and> encode_g2 lower (U ''thing'') = [0x2839, 0x282C]"
    if "lower (U ''thing'') = U ''thing''"
    using that by (simp add: single_word word_thing)
  from groupsign_order_sorted [of tbl] perm fold order_data order_hybrid
    three_letter_on_raw_word [of w] three_letter_first(3,4) word_bled(1) thing
  show ?thesis by blast
qed

theorem groupsigns_longest_first_witness:
  "ascii_lower (U ''thing'') = U ''thing''
   \<and> to_braille_g2 ascii_lower (U ''thing'') = [0x2839, 0x282C]
   \<and> encode_g2 ascii_lower (U ''thing'') = [0x2839, 0x282C]"
proof -
  have l: "ascii_lower (U ''thing'') = U ''thing''"
    by (simp add: ascii_lower_def U_def)
  from groupsigns_longest_first [of "[]" "[]" ascii_lower] l show ?thesis
    by blast
qed

section \<open>Bounded compression: the padding loop\<close>

lemma pad_loop_no_progress:
  assumes "pad_loop isalpha words n letters = Some y"
  shows "\<not> (words \<noteq> [] \<and> int (length letters) < n
            \<and> pull_letters isalpha n letters (max_len (hd words) (tl words)) = letters)"
proof (rule pad_loop.raw_induct
    [where P = "\<lambda>ia ws m ls y. \<not> (ws \<noteq> [] \<and> int (length ls) < m
            \<and> pull_letters ia m ls (max_len (hd ws) (tl ws)) = ls)", OF _ assms])
  fix loop :: "(uchar \<Rightarrow> bool) \<Rightarrow> ustr list \<Rightarrow> int \<Rightarrow> ustr \<Rightarrow> ustr option"
  fix ia ws m ls y
  assume IH: "\<And>ia ws m ls y. loop ia ws m ls = Some y \<Longrightarrow>
      \<not> (ws \<noteq> [] \<and> int (length ls) < m
          \<and> pull_letters ia m ls (max_len (hd ws) (tl ws)) = ls)"
    and step: "(if int (length ls) < m \<and> ws \<noteq> []
          then loop ia ws m (pull_letters ia m ls (max_len (hd ws) (tl ws)))
          else Some ls) = Some y"
  show "\<not> (ws \<noteq> [] \<and> int (length ls) < m
          \<and> pull_letters ia m ls (max_len (hd ws) (tl ws)) = ls)"
  proof
    assume stuck: "ws \<noteq> [] \<and> int (length ls) < m
      \<and> pull_letters ia m ls (max_len (hd ws) (tl ws)) = ls"
    with step have "loop ia ws m ls = Some y" by simp
    from IH [OF this] stuck show False by blast
  qed
qed

lemma pad_loop_stuck:
  assumes "words \<noteq> []" and "int (length letters) < n"
    and "pull_letters isalpha n letters (max_len (hd words) (tl words)) = letters"
  shows "pad_loop isalpha words n letters = None"
proof (cases "pad_loop isalpha words n letters")
  case None
  then show ?thesis .
next
  case (Some y)
  from pad_loop_no_progress [OF Some] assms show ?thesis by blast
qed

text \<open>
  C2. The claim: for every phrase and every \<open>n \<ge> 1\<close>, \<open>compress_to_n_cells(phrase, n)\<close>
  terminates and returns a cell sequence, a shorter one when the phrase has too few
  letters. The code at \<open>compress_to_n_cells("a", 2)\<close>: one letter is collected, the
  longest word "a" has nothing after its first character, so a round of the \<open>while\<close> loop
  adds no letter and the loop condition stays true: the call never returns.
\<close>

theorem compress_single_letter_never_returns:
  "compress_to_n_cells ascii_lower ascii_isspace ascii_isalpha (U ''a'') 2 = None"
proof -
  have words: "split_ws ascii_isspace (ascii_lower (U ''a'')) = [[0x61]]"
    by (simp add: split_ws_def ascii_lower_def ascii_isspace_def U_def)
  have "pad_loop ascii_isalpha [[0x61]] 2 [0x61] = None"
    by (rule pad_loop_stuck) (simp_all add: pull_letters_def)
  then show ?thesis
    by (simp add: compress_to_n_cells_def words slice_to_def ascii_isalpha_def)
qed

section \<open>Grade 2: characters outside the Grade-1 table\<close>

text \<open>
  C6. The claim: a character left after groupsign substitution goes through the Grade-1
  table with its blank-cell fallback, so every character of the output of \<open>encode_g2\<close> is
  a Braille cell or the separator cell. The code at \<open>to_braille_g2("7")\<close>: the digit is no
  key of the Grade-1 table of generate\_data.py, the \<open>else\<close> branch appends it unchanged, and
  the output is the string "7", which is no cell; the Grade-1 encoder gives the blank cell
  for the same input.
\<close>

theorem g2_unmapped_character_kept:
  "to_braille_g2 ascii_lower (U ''7'') = U ''7''
   \<and> \<not> list_all is_cell (to_braille_g2 ascii_lower (U ''7''))
   \<and> to_braille_g1 ascii_lower (U ''7'') = [0x2800]"
  by (simp add: to_braille_g2_def to_braille_g1_def g1_encode_def dict_get_def g2_eval
      table_defs U_def ascii_lower_def is_cell_def blank_def)

section \<open>Grade 1: decoding what was encoded\<close>

lemma G1_REVERSE_hybrid_eq:
  "G1_REVERSE_hybrid =
    [([0x2801], [0x61]), ([0x2803], [0x62]), ([0x2809], [0x63]), ([0x2819], [0x64]),
     ([0x2811], [0x65]), ([0x280B], [0x66]), ([0x281B], [0x67]), ([0x2813], [0x68]),
     ([0x280A], [0x69]), ([0x281A], [0x6A]), ([0x2805], [0x6B]), ([0x2807], [0x6C]),
     ([0x280D], [0x6D]), ([0x281D], [0x6E]), ([0x2815], [0x6F]), ([0x280F], [0x70]),
     ([0x281F], [0x71]), ([0x2817], [0x72]), ([0x280E], [0x73]), ([0x281E], [0x74]),
     ([0x2825], [0x75]), ([0x2827], [0x76]), ([0x283A], [0x77]), ([0x282D], [0x78]),
     ([0x283D], [0x79]), ([0x2835], [0x7A]), ([0x2800], [0x20]), ([0x2832], [0x34]),
     ([0x2802], [0x31]), ([0x2816], [0x36]), ([0x2826], [0x38]), ([0x2824], [0x2D]),
     ([0x2804], [0x27]), ([0x2812], [0x33]), ([0x2806], [0x32]), ([0x2834], [0x30]),
     ([0x2822], [0x35]), ([0x2836], [0x37]), ([0x2814], [0x39])]"
  by (simp add: G1_REVERSE_hybrid_def dict_invert_def G1_MAP_hybrid_def U_def)

lemma G1_REVERSE_validate_eq:
  "G1_REVERSE_validate =
    [([0x2801], [0x61]), ([0x2803], [0x62]), ([0x2809], [0x63]), ([0x2819], [0x64]),
     ([0x2811], [0x65]), ([0x280B], [0x66]), ([0x281B], [0x67]), ([0x2813], [0x68]),
     ([0x280A], [0x69]), ([0x281A], [0x6A]), ([0x2805], [0x6B]), ([0x2807], [0x6C]),
     ([0x280D], [0x6D]), ([0x281D], [0x6E]), ([0x2815], [0x6F]), ([0x280F], [0x70]),
     ([0x281F], [0x71]), ([0x2817], [0x72]), ([0x280E], [0x73]), ([0x281E], [0x74]),
     ([0x2825], [0x75]), ([0x2827], [0x76]), ([0x283A], [0x77]), ([0x282D], [0x78]),
     ([0x283D], [0x79]), ([0x2835], [0x7A]), ([0x2800], [0x20])]"
  by (simp add: G1_REVERSE_validate_def dict_invert_def G1_MAP_validate_def U_def)

lemma hybrid_keys_round_trip:
  "list_all (\<lambda>k. g1_decode G1_REVERSE_hybrid (dict_get G1_MAP_hybrid k blank) = k)
     hybrid_round_trip_keys"
  by (simp add: hybrid_round_trip_keys_def G1_REVERSE_hybrid_eq G1_MAP_hybrid_def
      g1_decode_def dict_get_def U_def blank_def)

lemma validate_keys_round_trip:
  "list_all (\<lambda>k. g1_decode G1_REVERSE_validate (dict_get G1_MAP_validate k blank) = k)
     (map fst G1_MAP_validate)"
  by (simp add: G1_REVERSE_validate_eq G1_MAP_validate_def
      g1_decode_def dict_get_def U_def blank_def)

lemma g1_decode_append: "g1_decode rv (a @ b) = g1_decode rv a @ g1_decode rv b"
  by (simp add: g1_decode_def)

lemma g1_round_trip_over:
  assumes "list_all (\<lambda>k. g1_decode rv (dict_get tbl k blank) = k) keys"
    and "list_all (\<lambda>c. lower [c] \<in> set keys) s"
  shows "g1_decode rv (g1_encode tbl lower s) = concat (map (\<lambda>c. lower [c]) s)"
  using assms(2)
proof (induction s)
  case Nil
  show ?case by (simp add: g1_decode_def g1_encode_def)
next
  case (Cons c s)
  from Cons.prems have "lower [c] \<in> set keys" by simp
  with assms(1) have "g1_decode rv (dict_get tbl (lower [c]) blank) = lower [c]"
    by (simp add: list_all_iff)
  moreover have "g1_encode tbl lower (c # s) = dict_get tbl (lower [c]) blank @ g1_encode tbl lower s"
    by (simp add: g1_encode_def)
  moreover from Cons have "g1_decode rv (g1_encode tbl lower s) = concat (map (\<lambda>c. lower [c]) s)"
    by simp
  ultimately show ?case by (simp add: g1_decode_append)
qed

lemma hello_keys:
  "list_all (\<lambda>c. [c] \<in> set hybrid_round_trip_keys) (U ''hello'')"
  "list_all (\<lambda>c. [c] \<in> set (map fst G1_MAP_validate)) (U ''hello'')"
  by (simp_all add: hybrid_round_trip_keys_def G1_MAP_validate_def U_def)

lemma six_marks:
  "map (\<lambda>k. decode_g1 (dict_get G1_MAP_hybrid k blank)) (map U [''.'', '','', ''!'', ''?'', '':'', '';''])
       = map U [''4'', ''1'', ''6'', ''8'', ''3'', ''2'']"
  by (simp add: decode_g1_def G1_REVERSE_hybrid_eq G1_MAP_hybrid_def
      g1_decode_def dict_get_def U_def blank_def)

text \<open>
  C3, as amended. The claim \<open>decode_g1(encode_g1(s)) == s\<close> for every \<open>s\<close> over the keys of
  the Grade-1 table holds for the table of validate.py. In generate\_hybrid.py six keys
  share their cell with a digit inserted later, and the reverse table keeps the digit:
  there the round trip holds for every \<open>s\<close> whose lower-cased characters are letters,
  the space, the hyphen, the apostrophe or digits, and the marks . , ! ? : ; decode to
  4 1 6 8 3 2. The result is the string of the lower-cased characters; in particular
  \<open>decode_g1(encode_g1("hello"))\<close> is "hello" with both tables.
\<close>

theorem g1_round_trip_unshared_cells:
  "(list_all (\<lambda>c. lower [c] \<in> set (map fst G1_MAP_validate)) s
      \<longrightarrow> decode_g1_validate (encode_g1_validate lower s) = concat (map (\<lambda>c. lower [c]) s))
   \<and> (list_all (\<lambda>c. lower [c] \<in> set hybrid_round_trip_keys) s
      \<longrightarrow> decode_g1 (encode_g1 lower s) = concat (map (\<lambda>c. lower [c]) s))
   \<and> (list_all (\<lambda>c. lower [c] = [c]) (U ''hello'')
      \<longrightarrow> decode_g1 (encode_g1 lower (U ''hello'')) = U ''hello''
          \<and> decode_g1_validate (encode_g1_validate lower (U ''hello'')) = U ''hello'')
   \<and> map (\<lambda>k. decode_g1 (dict_get G1_MAP_hybrid k blank))
         (map U [''.'', '','', ''!'', ''?'', '':'', '';''])
       = map U [''4'', ''1'', ''6'', ''8'', ''3'', ''2'']"
proof -
  have v: "list_all (\<lambda>c. lower [c] \<in> set (map fst G1_MAP_validate)) s
      \<Longrightarrow> decode_g1_validate (encode_g1_validate lower s) = concat (map (\<lambda>c. lower [c]) s)"
    for lower s
    unfolding decode_g1_validate_def encode_g1_validate_def
    by (rule g1_round_trip_over [OF validate_keys_round_trip])
  have h: "list_all (\<lambda>c. lower [c] \<in> set hybrid_round_trip_keys) s
      \<Longrightarrow> decode_g1 (encode_g1 lower s) = concat (map (\<lambda>c. lower [c]) s)"
    for lower s
    unfolding decode_g1_def encode_g1_def
    by (rule g1_round_trip_over [OF hybrid_keys_round_trip])
  have hello: "decode_g1 (encode_g1 lower (U ''hello'')) = U ''hello''
      \<and> decode_g1_validate (encode_g1_validate lower (U ''hello'')) = U ''hello''"
    if id: "list_all (\<lambda>c. lower [c] = [c]) (U ''hello'')"
  proof -
    from id hello_keys
    have "list_all (\<lambda>c. lower [c] \<in> set hybrid_round_trip_keys) (U ''hello'')"
      and "list_all (\<lambda>c. lower [c] \<in> set (map fst G1_MAP_validate)) (U ''hello'')"
      by (auto simp: list_all_iff)
    from h [OF this(1)] v [OF this(2)] id
    have "decode_g1 (encode_g1 lower (U ''hello'')) = concat (map (\<lambda>c. [c]) (U ''hello''))"
      and "decode_g1_validate (encode_g1_validate lower (U ''hello''))
        = concat (map (\<lambda>c. [c]) (U ''hello''))"
      by (simp_all add: list_all_iff cong: map_cong)
    then show ?thesis by simp
  qed
  from v h hello six_marks show ?thesis by blast
qed

theorem g1_round_trip_unshared_cells_witness:
  "list_all (\<lambda>c. ascii_lower [c] \<in> set (map fst G1_MAP_validate)) (U ''Hello'')
   \<and> decode_g1_validate (encode_g1_validate ascii_lower (U ''Hello'')) = U ''hello''
   \<and> list_all (\<lambda>c. ascii_lower [c] \<in> set hybrid_round_trip_keys) (U ''Hello'')
   \<and> decode_g1 (encode_g1 ascii_lower (U ''Hello'')) = U ''hello''
   \<and> list_all (\<lambda>c. ascii_lower [c] = [c]) (U ''hello'')
   \<and> decode_g1 (encode_g1 ascii_lower (U ''hello'')) = U ''hello''"
proof -
  have 1: "list_all (\<lambda>c. ascii_lower [c] \<in> set (map fst G1_MAP_validate)) (U ''Hello'')"
    by (simp add: ascii_lower_def G1_MAP_validate_def U_def)
  have 2: "list_all (\<lambda>c. ascii_lower [c] \<in> set hybrid_round_trip_keys) (U ''Hello'')"
    by (simp add: ascii_lower_def hybrid_round_trip_keys_def U_def)
  have 3: "list_all (\<lambda>c. ascii_lower [c] = [c]) (U ''hello'')"
    by (simp add: ascii_lower_def U_def)
  have 4: "concat (map (\<lambda>c. ascii_lower [c]) (U ''Hello'')) = U ''hello''"
    by (simp add: ascii_lower_def U_def)
  from g1_round_trip_unshared_cells [of ascii_lower "U ''Hello''"] 1 2 3
  have "decode_g1_validate (encode_g1_validate ascii_lower (U ''Hello''))
        = concat (map (\<lambda>c. ascii_lower [c]) (U ''Hello''))"
    and "decode_g1 (encode_g1 ascii_lower (U ''Hello''))
        = concat (map (\<lambda>c. ascii_lower [c]) (U ''Hello''))"
    and "decode_g1 (encode_g1 ascii_lower (U ''hello'')) = U ''hello''"
    by blast+
  with 1 2 3 4 show ?thesis by simp
qed

text \<open>
  C3, as stated, fails in generate\_hybrid.py at the one-character string ",": the comma
  is a key of the Grade-1 table, and it decodes to "1".
\<close>

theorem g1_round_trip_comma_counterexample:
  "U '','' \<in> set (map fst G1_MAP_hybrid)
   \<and> decode_g1 (encode_g1 ascii_lower (U '','')) = U ''1''
   \<and> decode_g1 (encode_g1 ascii_lower (U '','')) \<noteq> ascii_lower (U '','')"
  by (simp add: decode_g1_def encode_g1_def g1_encode_def G1_REVERSE_hybrid_eq
      G1_MAP_hybrid_def g1_decode_def dict_get_def U_def blank_def ascii_lower_def)

section \<open>Bounded compression: the letters selected first\<close>

lemma slice_to_nonneg: "0 \<le> n \<Longrightarrow> slice_to n xs = take (nat n) xs"
  by (simp add: slice_to_def)

lemma pull_letters_prefix: "prefix letters (pull_letters isalpha n letters longest)"
proof -
  have "prefix ls (foldl (\<lambda>ls c. if isalpha c \<and> int (length ls) < n then ls @ [c] else ls) ls cs)"
    for ls cs
  proof (induction cs arbitrary: ls)
    case Nil
    show ?case by simp
  next
    case (Cons c cs)
    show ?case
    proof (cases "isalpha c \<and> int (length ls) < n")
      case True
      have "prefix ls (ls @ [c])" by simp
      also have "prefix (ls @ [c])
          (foldl (\<lambda>ls c. if isalpha c \<and> int (length ls) < n then ls @ [c] else ls) (ls @ [c]) cs)"
        by (rule Cons.IH)
      finally show ?thesis using True by simp
    next
      case False
      with Cons.IH [of ls] show ?thesis by auto
    qed
  qed
  then show ?thesis by (simp add: pull_letters_def)
qed

lemma pad_loop_prefix:
  assumes "pad_loop isalpha words n letters = Some y"
  shows "prefix letters y"
proof (rule pad_loop.raw_induct [where P = "\<lambda>ia ws m ls y. prefix ls y", OF _ assms])
  fix loop :: "(uchar \<Rightarrow> bool) \<Rightarrow> ustr list \<Rightarrow> int \<Rightarrow> ustr \<Rightarrow> ustr option"
  fix ia ws m ls y
  assume IH: "\<And>ia ws m ls y. loop ia ws m ls = Some y \<Longrightarrow> prefix ls y"
    and step: "(if int (length ls) < m \<and> ws \<noteq> []
          then loop ia ws m (pull_letters ia m ls (max_len (hd ws) (tl ws)))
          else Some ls) = Some y"
  show "prefix ls y"
  proof (cases "int (length ls) < m \<and> ws \<noteq> []")
    case True
    with step have "loop ia ws m (pull_letters ia m ls (max_len (hd ws) (tl ws))) = Some y"
      by simp
    from IH [OF this] have "prefix (pull_letters ia m ls (max_len (hd ws) (tl ws))) y" .
    with pull_letters_prefix [of ls ia m] show ?thesis
      by (rule prefix_order.trans)
  next
    case False
    with step show ?thesis by simp
  qed
qed

lemma pad_loop_enough: "\<not> int (length letters) < n \<Longrightarrow> pad_loop isalpha words n letters = Some letters"
  by (subst pad_loop.simps) simp

lemma prefix_take: "prefix xs ys \<Longrightarrow> prefix (take k xs) (take k ys)"
  by (auto simp: prefix_def)

lemma g1_letters_prefix: "prefix xs ys \<Longrightarrow> prefix (g1_letters xs) (g1_letters ys)"
  by (auto simp: prefix_def g1_letters_def)

lemma first_letters_filter:
  "first_letters isalpha ws = map hd (filter (\<lambda>w. w \<noteq> [] \<and> isalpha (hd w)) ws)"
  by (induction isalpha ws rule: first_letters.induct) auto

lemma compress_enough_initials:
  assumes "0 \<le> n" and "n \<le> int (length (first_letters isalpha (split_ws isspace (lower text))))"
  shows "compress_to_n_cells lower isspace isalpha text n
    = Some (g1_letters (take (nat n) (first_letters isalpha (split_ws isspace (lower text)))),
            reasoning_text (take (nat n) (first_letters isalpha (split_ws isspace (lower text)))))"
proof -
  let ?ini = "first_letters isalpha (split_ws isspace (lower text))"
  from assms have "\<not> int (length (take (nat n) ?ini)) < n" by simp
  then have "pad_loop isalpha (split_ws isspace (lower text)) n (take (nat n) ?ini)
      = Some (take (nat n) ?ini)"
    by (rule pad_loop_enough)
  with assms(1) show ?thesis
    by (simp add: compress_to_n_cells_def slice_to_nonneg Let_def)
qed

lemma compress_result_prefix:
  assumes "0 \<le> n" and "compress_to_n_cells lower isspace isalpha text n = Some (b, r)"
  shows "prefix (g1_letters (take (nat n) (first_letters isalpha (split_ws isspace (lower text))))) b"
proof -
  let ?ws = "split_ws isspace (lower text)"
  let ?ini = "first_letters isalpha ?ws"
  from assms obtain y where y: "pad_loop isalpha ?ws n (take (nat n) ?ini) = Some y"
    and b: "b = g1_letters (take (nat n) y)"
    by (auto simp: compress_to_n_cells_def slice_to_nonneg Let_def)
  from pad_loop_prefix [OF y] have "prefix (take (nat n) (take (nat n) ?ini)) (take (nat n) y)"
    by (rule prefix_take)
  then have "prefix (take (nat n) ?ini) (take (nat n) y)" by simp
  with b show ?thesis by (simp add: g1_letters_prefix)
qed

lemma compress_ai:
  "compress_to_n_cells ascii_lower ascii_isspace ascii_isalpha (U ''artificial intelligence'') 2
       = Some ([0x2801, 0x280A], U ''Uses letters: a, i from key words'')"
proof -
  have ws: "split_ws ascii_isspace (ascii_lower (U ''artificial intelligence''))
      = [U ''artificial'', U ''intelligence'']"
    by (simp add: split_ws_def ascii_lower_def ascii_isspace_def U_def)
  have ini: "first_letters ascii_isalpha [U ''artificial'', U ''intelligence''] = U ''ai''"
    by (simp add: ascii_isalpha_def U_def)
  have len: "length (U ''ai'') = 2"
    by (simp add: U_def)
  have "compress_to_n_cells ascii_lower ascii_isspace ascii_isalpha (U ''artificial intelligence'') 2
      = Some (g1_letters (U ''ai''), reasoning_text (U ''ai''))"
    using compress_enough_initials [of 2 ascii_isalpha ascii_isspace ascii_lower "U ''artificial intelligence''"]
    by (simp add: ws ini len)
  moreover have "g1_letters (U ''ai'') = [0x2801, 0x280A]"
    by (simp add: g1_letters_def dict_get_def G1_MAP_hybrid_def U_def)
  moreover have "reasoning_text (U ''ai'') = U ''Uses letters: a, i from key words''"
    by (simp add: reasoning_text_def U_def)
  ultimately show ?thesis by simp
qed

text \<open>
  C7, as amended. \<open>compress_to_n_cells\<close> first selects the first character of each word
  that begins with an alphabetic character, in word order, up to \<open>n\<close> letters; a word
  whose first character is not alphabetic gives no letter. When the phrase has at least
  \<open>n\<close> such words the call returns the cells of the first \<open>n\<close> of these letters, and
  whenever it returns, its cells begin with the cells of these letters. In particular
  \<open>compress_to_n_cells("artificial intelligence", 2)\<close> returns the two cells of a and i,
  U+2801 U+280A.
\<close>

theorem compress_takes_word_initials:
  "first_letters isalpha ws = map hd (filter (\<lambda>w. w \<noteq> [] \<and> isalpha (hd w)) ws)
   \<and> (0 \<le> n \<and> n \<le> int (length (first_letters isalpha (split_ws isspace (lower text))))
       \<longrightarrow> compress_to_n_cells lower isspace isalpha text n
           = Some (g1_letters (take (nat n)
                     (first_letters isalpha (split_ws isspace (lower text)))),
                   reasoning_text (take (nat n)
                     (first_letters isalpha (split_ws isspace (lower text))))))
   \<and> (0 \<le> n \<and> compress_to_n_cells lower isspace isalpha text n = Some (b, r)
       \<longrightarrow> prefix (g1_letters (take (nat n)
                     (first_letters isalpha (split_ws isspace (lower text))))) b)
   \<and> compress_to_n_cells ascii_lower ascii_isspace ascii_isalpha
         (U ''artificial intelligence'') 2
       = Some ([0x2801, 0x280A], U ''Uses letters: a, i from key words'')"
  using first_letters_filter [of isalpha ws]
    compress_enough_initials [of n isalpha isspace lower "text"]
    compress_result_prefix [of n lower isspace isalpha "text" b r]
    compress_ai
  by blast

theorem compress_takes_word_initials_witness:
  "(0::int) \<le> 2
   \<and> 2 \<le> int (length (first_letters ascii_isalpha
                (split_ws ascii_isspace (ascii_lower (U ''Artificial Intelligence'')))))
   \<and> compress_to_n_cells ascii_lower ascii_isspace ascii_isalpha
         (U ''Artificial Intelligence'') 2
       = Some ([0x2801, 0x280A], U ''Uses letters: a, i from key words'')
   \<and> prefix (g1_letters (take (nat 2) (first_letters ascii_isalpha
                (split_ws ascii_isspace (ascii_lower (U ''Artificial Intelligence''))))))
        [0x2801, 0x280A]"
proof -
  have ini: "first_letters ascii_isalpha
      (split_ws ascii_isspace (ascii_lower (U ''Artificial Intelligence''))) = [0x61, 0x69]"
    by (simp add: split_ws_def ascii_lower_def ascii_isspace_def ascii_isalpha_def U_def)
  have cells: "g1_letters (take (nat 2) [0x61, 0x69]) = [0x2801, 0x280A]"
    by (simp add: g1_letters_def dict_get_def G1_MAP_hybrid_def U_def)
  have why: "reasoning_text (take (nat 2) [0x61, 0x69]) = U ''Uses letters: a, i from key words''"
    by (simp add: reasoning_text_def U_def)
  note T = compress_takes_word_initials [of ascii_isalpha "[]" 2 ascii_isspace ascii_lower
      "U ''Artificial Intelligence''" "[0x2801, 0x280A]" "U ''Uses letters: a, i from key words''"]
  have len: "(0::int) \<le> 2 \<and> 2 \<le> int (length (first_letters ascii_isalpha
      (split_ws ascii_isspace (ascii_lower (U ''Artificial Intelligence'')))))"
    by (simp add: ini)
  with T have res: "compress_to_n_cells ascii_lower ascii_isspace ascii_isalpha
         (U ''Artificial Intelligence'') 2
       = Some ([0x2801, 0x280A], U ''Uses letters: a, i from key words'')"
    by (simp only: ini cells why simp_thms)
  with T len have "prefix (g1_letters (take (nat 2) (first_letters ascii_isalpha
                (split_ws ascii_isspace (ascii_lower (U ''Artificial Intelligence''))))))
        [0x2801, 0x280A]"
    by blast
  with len res show ?thesis by blast
qed

text \<open>
  C7, as stated, fails at \<open>compress_to_n_cells("3d art", 1)\<close>: the first alphabetic
  character of the first word is d, whose cell is U+2819, and the code skips that word
  and returns the cell of a, U+2801.
\<close>

theorem compress_first_alphabetic_counterexample:
  "compress_to_n_cells ascii_lower ascii_isspace ascii_isalpha (U ''3d art'') 1
     = Some ([0x2801], U ''Uses letters: a from key words'')
   \<and> g1_letters (spec_initial_letters ascii_isalpha
         (split_ws ascii_isspace (ascii_lower (U ''3d art''))) 1) = [0x2819]"
proof -
  have ws: "split_ws ascii_isspace (ascii_lower (U ''3d art'')) = [[0x33, 0x64], [0x61, 0x72, 0x74]]"
    by (simp add: split_ws_def ascii_lower_def ascii_isspace_def U_def)
  have ini: "first_letters ascii_isalpha [[0x33, 0x64], [0x61, 0x72, 0x74]] = [0x61]"
    by (simp add: ascii_isalpha_def)
  have "compress_to_n_cells ascii_lower ascii_isspace ascii_isalpha (U ''3d art'') 1
      = Some (g1_letters [0x61], reasoning_text [0x61])"
    using compress_enough_initials [of 1 ascii_isalpha ascii_isspace ascii_lower "U ''3d art''"]
    unfolding ws ini by simp
  moreover have "g1_letters [0x61] = [0x2801]"
    by (simp add: g1_letters_def dict_get_def G1_MAP_hybrid_def U_def)
  moreover have "reasoning_text [0x61] = U ''Uses letters: a from key words''"
    by (simp add: reasoning_text_def U_def)
  moreover have "spec_initial_letters ascii_isalpha [[0x33, 0x64], [0x61, 0x72, 0x74]] 1 = [0x64]"
    by (simp add: spec_initial_letters_def List.map_filter_simps ascii_isalpha_def)
  moreover have "g1_letters [0x64] = [0x2819]"
    by (simp add: g1_letters_def dict_get_def G1_MAP_hybrid_def U_def)
  ultimately show ?thesis by (simp add: ws)
qed

section \<open>The two Grade-2 encoders\<close>

lemma replace_scan_absent: "\<not> sublist old s \<Longrightarrow> replace_scan old new s = s"
proof (induction s)
  case Nil
  show ?case by simp
next
  case (Cons c cs)
  from Cons.prems have "\<not> prefix old (c # cs)" and "\<not> sublist old cs"
    by (simp_all add: sublist_Cons_right)
  with Cons.IH show ?case by simp
qed

lemma replace_absent: "\<not> sublist old s \<Longrightarrow> replace old new s = s"
  by (cases "old = []") (simp_all add: replace_def replace_scan_absent)

lemma strong_same: "G2_STRONG_hybrid = G2_STRONG_data"
  by (simp add: G2_STRONG_hybrid_def G2_STRONG_data_def)

lemma wordsigns_same: "G2_WORDSIGNS_hybrid = G2_WORDSIGNS_data"
  by (simp add: G2_WORDSIGNS_hybrid_def G2_WORDSIGNS_data_def)

lemma lower_without_in:
  "G2_LOWER_hybrid = filter (\<lambda>(k, v). k \<noteq> U ''in'') G2_LOWER_data"
  by (simp add: G2_LOWER_hybrid_def G2_LOWER_data_def U_def)

lemma groupsigns_two_more:
  "groupsign_order G2_GROUPSIGNS_hybrid
   = groupsign_order G2_GROUPSIGNS_data @ [(U ''en'', [0x2822]), (U ''in'', [0x2814])]"
  by (simp add: groupsign_order_def G2_GROUPSIGNS_hybrid_def G2_GROUPSIGNS_data_def U_def)

lemma g1_thirteen_more:
  "G1_MAP_hybrid = G1_MAP_data @ map (\<lambda>(k, v). (k, [v]))
     (zip hybrid_only_keys
        [0x2804, 0x2812, 0x2806, 0x2834, 0x2802, 0x2806, 0x2812, 0x2832, 0x2822, 0x2816,
         0x2836, 0x2826, 0x2814])"
  by (simp add: G1_MAP_hybrid_def G1_MAP_data_def hybrid_only_keys_def U_def)

lemma map_of_filter_other:
  "k \<noteq> x \<Longrightarrow> map_of (filter (\<lambda>(k, v). k \<noteq> x) d) k = map_of d k"
  by (induction d) auto

lemma word_in:
  "to_braille_g2_word (U ''in'') = [0x2814]" "encode_g2_word (U ''in'') = [0x2814]"
  by (simp_all add: g2_eval table_defs U_def)

lemma g1_lookup_same:
  assumes "[c] \<notin> set hybrid_only_keys"
  shows "map_of G1_MAP_hybrid [c] = map_of G1_MAP_data [c]"
proof -
  let ?more = "map (\<lambda>(k, v). (k, [v :: nat]))
     (zip hybrid_only_keys
        [0x2804, 0x2812, 0x2806, 0x2834, 0x2802, 0x2806, 0x2812, 0x2832, 0x2822, 0x2816,
         0x2836, 0x2826, 0x2814])"
  have "fst ` set ?more \<subseteq> set hybrid_only_keys"
    by (auto dest: set_zip_leftD)
  with assms have "[c] \<notin> fst ` set ?more" by blast
  then have "map_of ?more [c] = None" by (simp add: map_of_eq_None_iff)
  then show ?thesis
    by (simp add: g1_thirteen_more map_add_def split: option.splits)
qed

lemma convert_remaining_same:
  "list_all (\<lambda>c. [c] \<notin> set hybrid_only_keys) s
   \<Longrightarrow> convert_remaining G1_MAP_hybrid s = convert_remaining G1_MAP_data s"
  by (induction s) (simp_all add: convert_remaining_def g1_lookup_same)

lemma apply_groupsigns_hybrid:
  "apply_groupsigns G2_GROUPSIGNS_hybrid w
   = replace (U ''in'') [0x2814] (replace (U ''en'') [0x2822]
       (apply_groupsigns G2_GROUPSIGNS_data w))"
  by (simp add: apply_groupsigns_def groupsigns_two_more)

lemma words_agree:
  assumes "tables_agree_on w"
  shows "encode_g2_word w = to_braille_g2_word w"
proof (cases "map_of G2_STRONG_data w")
  case (Some v)
  then show ?thesis
    by (simp add: encode_g2_word_def to_braille_g2_word_def g2_word_def strong_same)
next
  case strong: None
  show ?thesis
  proof (cases "map_of G2_WORDSIGNS_data w")
    case (Some v)
    with strong show ?thesis
      by (simp add: encode_g2_word_def to_braille_g2_word_def g2_word_def strong_same
          wordsigns_same)
  next
    case wordsigns: None
    show ?thesis
    proof (cases "map_of G2_LOWER_data w")
      case (Some v)
      show ?thesis
      proof (cases "w = U ''in''")
        case True
        then show ?thesis by (simp add: word_in)
      next
        case False
        then have "map_of G2_LOWER_hybrid w = map_of G2_LOWER_data w"
          by (simp add: lower_without_in map_of_filter_other)
        with strong wordsigns Some show ?thesis
          by (simp add: encode_g2_word_def to_braille_g2_word_def g2_word_def strong_same
              wordsigns_same)
      qed
    next
      case lower: None
      let ?c = "apply_groupsigns G2_GROUPSIGNS_data w"
      from assms strong wordsigns lower
      have en: "\<not> sublist (U ''en'') ?c" and "in": "\<not> sublist (U ''in'') ?c"
        and keys: "list_all (\<lambda>c. [c] \<notin> set hybrid_only_keys) ?c"
        by (simp_all add: tables_agree_on_def)
      have "map_of G2_LOWER_hybrid w = None"
        using lower by (simp add: lower_without_in map_of_eq_None_iff image_iff) 
      moreover have "apply_groupsigns G2_GROUPSIGNS_hybrid w = ?c"
        by (simp add: apply_groupsigns_hybrid replace_absent [OF en] replace_absent [OF "in"])
      ultimately show ?thesis
        using strong wordsigns lower
        by (simp add: encode_g2_word_def to_braille_g2_word_def g2_word_def strong_same
            wordsigns_same convert_remaining_same [OF keys])
    qed
  qed
qed

lemma g1_keys_more: "map fst G1_MAP_hybrid = map fst G1_MAP_data @ hybrid_only_keys"
  by (simp add: g1_thirteen_more hybrid_only_keys_def U_def)

text \<open>
  C10, as amended. \<open>to_braille_g2\<close> of generate\_data.py and \<open>encode_g2\<close> of
  generate\_hybrid.py run the same algorithm over tables that differ: generate\_hybrid.py
  has the two further groupsigns "en" and "in", tried last, thirteen further Grade-1 keys
  (the apostrophe, the colon, the semicolon and the digits) and no Lower Wordsign "in";
  the Strong Contraction and Wordsign tables are the same. The two return identical cell
  sequences for every input each of whose words is a key of a whole-word table of
  generate\_data.py or, after the groupsign substitutions of generate\_data.py, holds
  neither "en" nor "in" nor one of the thirteen characters.
\<close>

theorem g2_encoders_agree_where_tables_do:
  "(list_all tables_agree_on (split_space (lower text))
      \<longrightarrow> encode_g2 lower text = to_braille_g2 lower text)
   \<and> G2_STRONG_hybrid = G2_STRONG_data
   \<and> G2_WORDSIGNS_hybrid = G2_WORDSIGNS_data
   \<and> G2_LOWER_hybrid = filter (\<lambda>(k, v). k \<noteq> U ''in'') G2_LOWER_data
   \<and> groupsign_order G2_GROUPSIGNS_hybrid
       = groupsign_order G2_GROUPSIGNS_data @ [(U ''en'', [0x2822]), (U ''in'', [0x2814])]
   \<and> map fst G1_MAP_hybrid = map fst G1_MAP_data @ hybrid_only_keys"
proof -
  have "encode_g2 lower text = to_braille_g2 lower text"
    if "list_all tables_agree_on (split_space (lower text))"
  proof -
    from that have "map encode_g2_word (split_space (lower text))
        = map to_braille_g2_word (split_space (lower text))"
      by (simp add: list_all_iff words_agree)
    then show ?thesis by (simp only: encode_g2_def to_braille_g2_def)
  qed
  with strong_same wordsigns_same lower_without_in groupsigns_two_more g1_keys_more
  show ?thesis by blast
qed

theorem g2_encoders_agree_where_tables_do_witness:
  "list_all tables_agree_on (split_space (ascii_lower (U ''The thing in there'')))
   \<and> encode_g2 ascii_lower (U ''The thing in there'')
       = to_braille_g2 ascii_lower (U ''The thing in there'')"
proof -
  have ws: "split_space (ascii_lower (U ''The thing in there''))
      = [U ''the'', U ''thing'', U ''in'', U ''there'']"
    by (simp add: ascii_lower_def U_def)
  have 1: "tables_agree_on (U ''the'')"
    by (simp add: tables_agree_on_def G2_STRONG_data_def U_def)
  have 2: "tables_agree_on (U ''thing'')"
    by (simp add: tables_agree_on_def g2_eval table_defs hybrid_only_keys_def U_def
        sublist_Cons_right)
  have 3: "tables_agree_on (U ''in'')"
    by (simp add: tables_agree_on_def G2_LOWER_data_def U_def)
  have 4: "tables_agree_on (U ''there'')"
    by (simp add: tables_agree_on_def g2_eval table_defs hybrid_only_keys_def U_def
        sublist_Cons_right)
  have all: "list_all tables_agree_on (split_space (ascii_lower (U ''The thing in there'')))"
    by (simp add: ws 1 2 3 4)
  with g2_encoders_agree_where_tables_do [of ascii_lower "U ''The thing in there''"]
  show ?thesis by blast
qed

text \<open>
  C10, as stated, fails at "pen": generate\_data.py gives the three letter cells
  U+280F U+2811 U+281D, generate\_hybrid.py contracts "en" and gives U+280F U+2822.
\<close>

theorem g2_encoders_differ_counterexample:
  "to_braille_g2 ascii_lower (U ''pen'') = [0x280F, 0x2811, 0x281D]
   \<and> encode_g2 ascii_lower (U ''pen'') = [0x280F, 0x2822]
   \<and> to_braille_g2 ascii_lower (U ''pen'') \<noteq> encode_g2 ascii_lower (U ''pen'')"
proof -
  have l: "ascii_lower (U ''pen'') = U ''pen''" and s: "0x20 \<notin> set (U ''pen'')"
    by (simp_all add: ascii_lower_def U_def)
  have "to_braille_g2_word (U ''pen'') = [0x280F, 0x2811, 0x281D]"
    and "encode_g2_word (U ''pen'') = [0x280F, 0x2822]"
    by (simp_all add: g2_eval table_defs U_def)
  with single_word [of ascii_lower "U ''pen''" "U ''pen''"] l s show ?thesis by simp
qed

end
